theory Spec2Isabelle
  imports Complex_Main
begin

section \<open>The notebook's data\<close>

text \<open>
  The notebook \<^verbatim>\<open>pixel_rate_time_series\<close> (and its web copy) reads a CSV file into a
  pandas \<^verbatim>\<open>DataFrame\<close> with the four columns \<^verbatim>\<open>start_time_s\<close>, \<^verbatim>\<open>acq_time_s\<close>,
  \<^verbatim>\<open>n_pixels\<close> and \<^verbatim>\<open>pixels_per_second\<close>. All columns of a data frame have the same
  number of rows, so the frame is a list of rows and \<^verbatim>\<open>df['c'].tolist()\<close> is the list of
  the field \<open>c\<close> of every row, in row order.

  The integer columns become Python integers (unbounded, type \<open>int\<close>). The two float
  columns are modelled by \<open>real\<close>: sums, products and comparisons are the exact ones, the
  rounding of binary floating point and the value NaN are outside the model.
\<close>

type_synonym pyfloat = real

record frame =
  start_time_s :: int
  acq_time_s :: pyfloat
  n_pixels :: int
  pixels_per_second :: pyfloat

type_synonym DataFrame = "frame list"

text \<open>
  Modelled from the spec: \<^verbatim>\<open>timevals.py\<close>, which the cell imports with
  \<^verbatim>\<open>from timevals import *\<close>, is not among the sources. The spec gives the number of
  seconds in a day as 86400, and the output recorded in the notebook agrees (the first
  start time 1396447375 is plotted at 50575, the x range ends at 86400).
\<close>

definition SECONDS_IN_A_DAY :: int where
  "SECONDS_IN_A_DAY = 86400"

section \<open>Preparing the data\<close>

text \<open>
  \<^verbatim>\<open>l_values = [(s % SECONDS_IN_A_DAY) for s in df['start_time_s'].tolist()]\<close>

  Python's \<^verbatim>\<open>%\<close> on integers takes the sign of the divisor, as \<open>mod\<close> on \<open>int\<close> does.
\<close>

definition l_values :: "DataFrame \<Rightarrow> int list" where
  "l_values df = [s mod SECONDS_IN_A_DAY. s \<leftarrow> map start_time_s df]"

text \<open>
  \<^verbatim>\<open>r_values = [s + a for s, a in zip(l_values, df['acq_time_s'].tolist())]\<close>

  The integer \<open>s\<close> is converted to a float by the addition.
\<close>

definition r_values :: "DataFrame \<Rightarrow> pyfloat list" where
  "r_values df = [real_of_int s + a. (s, a) \<leftarrow> zip (l_values df) (map acq_time_s df)]"

text \<open>\<^verbatim>\<open>t_values = df['pixels_per_second'].tolist()\<close>\<close>

definition t_values :: "DataFrame \<Rightarrow> pyfloat list" where
  "t_values df = map pixels_per_second df"

text \<open>\<^verbatim>\<open>b_values = [0.0] * len(l_values)\<close>\<close>

definition b_values :: "DataFrame \<Rightarrow> pyfloat list" where
  "b_values df = replicate (length (l_values df)) 0"

section \<open>The notebook's namespace\<close>

text \<open>
  The cells of a notebook run at module level: they read and assign global names. The
  namespace holds the data frame \<^verbatim>\<open>df\<close> (bound by the first cell), the constant that
  \<^verbatim>\<open>from timevals import *\<close> binds, the four lists (unbound until the preparing cell has
  run) and the loop variables \<^verbatim>\<open>s\<close> and \<^verbatim>\<open>a\<close>: the kernel is Python 2, where the loop
  variables of a list comprehension stay bound in the enclosing scope after the
  comprehension has finished. Of the names the import binds only
  \<^verbatim>\<open>SECONDS_IN_A_DAY\<close> is used by the notebook; the others are not known
  (\<^verbatim>\<open>timevals.py\<close> is not among the sources) and are left out.
\<close>

record namespace =
  ns_df :: DataFrame
  ns_SECONDS_IN_A_DAY :: "int option"
  ns_l_values :: "int list option"
  ns_r_values :: "pyfloat list option"
  ns_t_values :: "pyfloat list option"
  ns_b_values :: "pyfloat list option"
  ns_s :: "int option"
  ns_a :: "pyfloat option"

text \<open>
  The loop variable after \<^verbatim>\<open>[... for x in xs]\<close>: the last element of \<open>xs\<close>, or whatever
  it was before when \<open>xs\<close> is empty.
\<close>

definition leaked :: "'a option \<Rightarrow> 'a list \<Rightarrow> 'a option" where
  "leaked old xs = (if xs = [] then old else Some (last xs))"

text \<open>
  The preparing cell, statement by statement. The import binds the constant; the first
  comprehension leaves \<open>s\<close> at the last start time, the second one leaves \<open>s\<close> and \<open>a\<close>
  at the last pair of the zip.
\<close>

definition prepare_cell :: "namespace \<Rightarrow> namespace" where
  "prepare_cell ns =
     (let df = ns_df ns;
          s1 = leaked (ns_s ns) (map start_time_s df);
          pairs = zip (l_values df) (map acq_time_s df);
          s2 = leaked s1 (map fst pairs);
          a2 = leaked (ns_a ns) (map snd pairs)
      in ns\<lparr>ns_SECONDS_IN_A_DAY := Some SECONDS_IN_A_DAY,
             ns_l_values := Some (l_values df),
             ns_r_values := Some (r_values df),
             ns_t_values := Some (t_values df),
             ns_b_values := Some (b_values df),
             ns_s := s2,
             ns_a := a2\<rparr>)"

section \<open>Plotting the data\<close>

datatype py_error = NameError | ValueError

text \<open>
  The builtin \<^verbatim>\<open>max\<close> of a list: \<^verbatim>\<open>ValueError\<close> on the empty list; otherwise it starts
  from the first item and replaces the running maximum by every later item that is
  greater.
\<close>

fun py_max :: "pyfloat list \<Rightarrow> py_error + pyfloat" where
  "py_max [] = Inl ValueError"
| "py_max (x # xs) = Inr (foldl (\<lambda>m y. if y > m then y else m) x xs)"

text \<open>
  \<^verbatim>\<open>plottools.py\<close> and Bokeh are collaborators outside the sources. The plotting cell is
  modelled by the calls it makes to them, in order and with their arguments:
  \<^verbatim>\<open>get_day_plot_figure(y_max)\<close>, \<^verbatim>\<open>p.quad(top, bottom, left, right, color)\<close> and
  \<^verbatim>\<open>show(p)\<close>. The calls are taken to return.
\<close>

datatype call =
    Get_day_plot_figure pyfloat
  | Quad "pyfloat list" "pyfloat list" "int list" "pyfloat list" string
  | Show

text \<open>
  \<^verbatim>\<open>
  p = get_day_plot_figure(max(t_values))
  p.quad(top=t_values, bottom=b_values, left=l_values, right=r_values, color="#B3DE69")
  show(p)
  \<close>
  The result is the list of calls made and the exception that ended the cell, if any.
  An unbound name raises \<^verbatim>\<open>NameError\<close> where it is read; the keyword arguments of
  \<^verbatim>\<open>quad\<close> are evaluated from left to right, after the figure has been made. The web
  copy of the notebook has \<^verbatim>\<open>show(p)\<close> commented out: \<open>web\<close> tells which copy runs.
\<close>

definition plot_cell :: "bool \<Rightarrow> namespace \<Rightarrow> call list \<times> py_error option" where
  "plot_cell web ns =
     (case ns_t_values ns of
        None \<Rightarrow> ([], Some NameError)
      | Some t \<Rightarrow>
          (case py_max t of
             Inl e \<Rightarrow> ([], Some e)
           | Inr y_max \<Rightarrow>
               (case ns_b_values ns of
                  None \<Rightarrow> ([Get_day_plot_figure y_max], Some NameError)
                | Some b \<Rightarrow>
                    (case ns_l_values ns of
                       None \<Rightarrow> ([Get_day_plot_figure y_max], Some NameError)
                     | Some l \<Rightarrow>
                         (case ns_r_values ns of
                            None \<Rightarrow> ([Get_day_plot_figure y_max], Some NameError)
                          | Some r \<Rightarrow>
                              ([Get_day_plot_figure y_max, Quad t b l r ''#B3DE69'']
                                 @ (if web then [] else [Show]),
                               None))))))"

text \<open>The preparing cell followed by the plotting cell, as the notebook runs them.\<close>

definition notebook :: "bool \<Rightarrow> namespace \<Rightarrow> call list \<times> py_error option" where
  "notebook web ns = plot_cell web (prepare_cell ns)"

section \<open>Example data\<close>

text \<open>
  The first five rows of the CSV file, as the notebook displays them with
  \<^verbatim>\<open>df.head()\<close>.
\<close>

definition df_head :: DataFrame where
  "df_head =
     [\<lparr>start_time_s = 1396447375, acq_time_s = 60, n_pixels = 57, pixels_per_second = 0.95\<rparr>,
      \<lparr>start_time_s = 1396447435, acq_time_s = 60, n_pixels = 41, pixels_per_second = 0.683333\<rparr>,
      \<lparr>start_time_s = 1396447495, acq_time_s = 60, n_pixels = 18, pixels_per_second = 0.3\<rparr>,
      \<lparr>start_time_s = 1396447555, acq_time_s = 60, n_pixels = 21, pixels_per_second = 0.35\<rparr>,
      \<lparr>start_time_s = 1396447615, acq_time_s = 60, n_pixels = 21, pixels_per_second = 0.35\<rparr>]"

text \<open>
  The namespace when the preparing cell runs for the first time: the first cell has bound
  \<^verbatim>\<open>df\<close>, nothing else is bound yet.
\<close>

definition fresh :: "DataFrame \<Rightarrow> namespace" where
  "fresh df = \<lparr>ns_df = df, ns_SECONDS_IN_A_DAY = None, ns_l_values = None, ns_r_values = None, ns_t_values = None,
               ns_b_values = None, ns_s = None, ns_a = None\<rparr>"

section \<open>Basic facts about the four lists\<close>

lemma l_values_map: "l_values df = map (\<lambda>f. start_time_s f mod 86400) df"
  by (simp add: l_values_def SECONDS_IN_A_DAY_def comp_def)

lemma length_l_values: "length (l_values df) = length df"
  by (simp add: l_values_map)

lemma nth_l_values:
  "i < length df \<Longrightarrow> l_values df ! i = start_time_s (df ! i) mod 86400"
  by (simp add: l_values_map)

lemma length_r_values: "length (r_values df) = length df"
  by (simp add: r_values_def length_l_values)

lemma r_values_map:
  "r_values df = map (\<lambda>f. real_of_int (start_time_s f mod 86400) + acq_time_s f) df"
  by (induction df) (simp_all add: r_values_def l_values_map)

lemma nth_r_values:
  "i < length df \<Longrightarrow> r_values df ! i = real_of_int (l_values df ! i) + acq_time_s (df ! i)"
  by (simp add: r_values_map l_values_map)

lemma length_t_values: "length (t_values df) = length df"
  by (simp add: t_values_def)

lemma nth_t_values: "i < length df \<Longrightarrow> t_values df ! i = pixels_per_second (df ! i)"
  by (simp add: t_values_def)

lemma b_values_replicate: "b_values df = replicate (length df) 0"
  by (simp add: b_values_def length_l_values)

lemma prepare_cell_fields:
  "ns_df (prepare_cell ns) = ns_df ns"
  "ns_l_values (prepare_cell ns) = Some (l_values (ns_df ns))"
  "ns_r_values (prepare_cell ns) = Some (r_values (ns_df ns))"
  "ns_t_values (prepare_cell ns) = Some (t_values (ns_df ns))"
  "ns_b_values (prepare_cell ns) = Some (b_values (ns_df ns))"
  by (simp_all add: prepare_cell_def Let_def)


lemma foldl_gt_fold_max:
  "foldl (\<lambda>m y. if y > m then y else m) (x::real) xs = fold max xs x"
  by (induction xs arbitrary: x) (auto simp: max_def)

lemma py_max_Max: "py_max xs = Inr (Max (set xs))" if "xs \<noteq> []"
proof (cases xs)
  case Nil
  then show ?thesis using that by simp
next
  case (Cons a list)
  have "fold max list a = Max (set (a # list))"
    by (rule Max.set_eq_fold [symmetric])
  then show ?thesis
    using Cons by (simp add: foldl_gt_fold_max)
qed

lemma notebook_nonempty:
  "ns_df ns \<noteq> [] \<Longrightarrow>
   notebook web ns =
     ([Get_day_plot_figure (Max (set (t_values (ns_df ns)))),
       Quad (t_values (ns_df ns)) (b_values (ns_df ns)) (l_values (ns_df ns))
            (r_values (ns_df ns)) ''#B3DE69'']
        @ (if web then [] else [Show]), None)"
  by (simp add: notebook_def plot_cell_def prepare_cell_fields py_max_Max t_values_def)

lemma notebook_empty: "ns_df ns = [] \<Longrightarrow> notebook web ns = ([], Some ValueError)"
  by (simp add: notebook_def plot_cell_def prepare_cell_fields t_values_def)

text \<open>
  The model reproduces the values the notebook recorded for these rows in its output
  (the \<^verbatim>\<open>left\<close>, \<^verbatim>\<open>right\<close>, \<^verbatim>\<open>top\<close> and \<^verbatim>\<open>bottom\<close> columns of the plot's data source).
\<close>

lemma df_head_recorded_output:
  "l_values df_head = [50575, 50635, 50695, 50755, 50815] \<and>
   r_values df_head = [50635, 50695, 50755, 50815, 50875] \<and>
   t_values df_head = [0.95, 0.683333, 0.3, 0.35, 0.35] \<and>
   b_values df_head = [0, 0, 0, 0, 0]"
  by (simp add: df_head_def l_values_map r_values_map t_values_def b_values_replicate)

section \<open>Left coordinates\<close>

text \<open>
  C1. Every left coordinate is the start time reduced modulo 86400 with the mathematical
  (non-negative) remainder: it differs from the start time by a multiple of 86400 and lies
  in \<open>[0, 86400)\<close>, whatever the sign of the start time. A frame that starts at exactly
  86400 gets the left coordinate 0.
\<close>

theorem l_values_time_of_day:
  "l_values df = map (\<lambda>f. start_time_s f mod 86400) df \<and>
   (\<forall>i < length df.
      l_values df ! i = start_time_s (df ! i) mod SECONDS_IN_A_DAY \<and>
      (\<exists>q. start_time_s (df ! i) = q * 86400 + l_values df ! i) \<and>
      0 \<le> l_values df ! i \<and> l_values df ! i < SECONDS_IN_A_DAY) \<and>
   SECONDS_IN_A_DAY = 86400 \<and>
   l_values [f\<lparr>start_time_s := 86400\<rparr>] = [0]"
proof -
  have bounds: "(\<exists>q. s = q * 86400 + s mod 86400) \<and> 0 \<le> s mod 86400 \<and> s mod 86400 < 86400"
    for s :: int
  proof -
    have "s = (s div 86400) * 86400 + s mod 86400" by simp
    then have "\<exists>q. s = q * 86400 + s mod 86400" by blast
    then show ?thesis by simp
  qed
  have "\<forall>i < length df.
      l_values df ! i = start_time_s (df ! i) mod SECONDS_IN_A_DAY \<and>
      (\<exists>q. start_time_s (df ! i) = q * 86400 + l_values df ! i) \<and>
      0 \<le> l_values df ! i \<and> l_values df ! i < SECONDS_IN_A_DAY"
    using bounds by (simp add: nth_l_values SECONDS_IN_A_DAY_def)
  moreover have "l_values [f\<lparr>start_time_s := 86400\<rparr>] = [0]"
    by (simp add: l_values_map)
  ultimately show ?thesis
    by (simp add: l_values_map SECONDS_IN_A_DAY_def)
qed

theorem l_values_time_of_day_witness:
  "(0::nat) < length [\<lparr>start_time_s = - 1, acq_time_s = 60, n_pixels = 57,
                      pixels_per_second = 95 / 100\<rparr>] \<and>
   l_values [\<lparr>start_time_s = - 1, acq_time_s = 60, n_pixels = 57,
              pixels_per_second = 95 / 100\<rparr>] ! 0 = 86399 \<and>
   (0::int) \<le> 86399 \<and> (86399::int) < SECONDS_IN_A_DAY"
  using l_values_time_of_day
    [of "[\<lparr>start_time_s = - 1, acq_time_s = 60, n_pixels = 57,
           pixels_per_second = 95 / 100\<rparr>]"]
  by (simp add: SECONDS_IN_A_DAY_def)

section \<open>Right coordinates\<close>

text \<open>
  C2. Every right coordinate is the left coordinate plus the acquisition time. Nothing is
  wrapped, clipped or split at the end of the day: there is one right value per frame, a
  frame that starts at 86399 and runs for 120 seconds gets left 86399 and right 86519,
  and the right coordinate is not below the left one when the acquisition time is not
  negative.
\<close>

theorem r_values_no_wrap:
  "r_values df = map (\<lambda>f. real_of_int (start_time_s f mod 86400) + acq_time_s f) df \<and>
   length (r_values df) = length df \<and>
   (\<forall>i < length df.
      r_values df ! i = real_of_int (l_values df ! i) + acq_time_s (df ! i) \<and>
      (0 \<le> acq_time_s (df ! i) \<longrightarrow> real_of_int (l_values df ! i) \<le> r_values df ! i)) \<and>
   l_values [f\<lparr>start_time_s := 86399, acq_time_s := 120\<rparr>] = [86399] \<and>
   r_values [f\<lparr>start_time_s := 86399, acq_time_s := 120\<rparr>] = [86519]"
proof -
  have "\<forall>i < length df.
      r_values df ! i = real_of_int (l_values df ! i) + acq_time_s (df ! i) \<and>
      (0 \<le> acq_time_s (df ! i) \<longrightarrow> real_of_int (l_values df ! i) \<le> r_values df ! i)"
    by (simp add: nth_r_values)
  moreover have "l_values [f\<lparr>start_time_s := 86399, acq_time_s := 120\<rparr>] = [86399]"
    by (simp add: l_values_map)
  moreover have "r_values [f\<lparr>start_time_s := 86399, acq_time_s := 120\<rparr>] = [86519]"
    by (simp add: r_values_map)
  moreover have "length (r_values df) = length df"
    by (rule length_r_values)
  ultimately show ?thesis
    using r_values_map [of df] by blast
qed

theorem r_values_no_wrap_witness:
  "(0::nat) < length [\<lparr>start_time_s = 1396483199, acq_time_s = 120, n_pixels = 114,
                      pixels_per_second = 95 / 100\<rparr>] \<and>
   (0::real) \<le> acq_time_s \<lparr>start_time_s = 1396483199, acq_time_s = 120, n_pixels = 114,
                      pixels_per_second = 95 / 100\<rparr> \<and>
   l_values [\<lparr>start_time_s = 1396483199, acq_time_s = 120, n_pixels = 114,
              pixels_per_second = 95 / 100\<rparr>] ! 0 = 86399 \<and>
   r_values [\<lparr>start_time_s = 1396483199, acq_time_s = 120, n_pixels = 114,
              pixels_per_second = 95 / 100\<rparr>] ! 0 = 86519"
  using r_values_no_wrap
    [of "[\<lparr>start_time_s = 1396483199, acq_time_s = 120, n_pixels = 114,
           pixels_per_second = 95 / 100\<rparr>]"]
  by (simp add: l_values_map)

section \<open>No validation\<close>

text \<open>
  C3 as stated fails. The spec asks for a \<^verbatim>\<open>ValidationError\<close> and no output for a record
  with a negative start time, acquisition time or rate. The notebook has no such check
  and no such exception: for a frame with \<^verbatim>\<open>acq_time_s = -5\<close> both cells run to the end,
  and the rectangle is plotted with its right edge five seconds before its left edge.
\<close>

theorem negative_acq_time_accepted_counterexample:
  "acq_time_s \<lparr>start_time_s = 1396447375, acq_time_s = - 5, n_pixels = 57,
               pixels_per_second = 0.95\<rparr> < 0 \<and>
   notebook False (fresh [\<lparr>start_time_s = 1396447375, acq_time_s = - 5, n_pixels = 57,
                           pixels_per_second = 0.95\<rparr>])
     = ([Get_day_plot_figure 0.95, Quad [0.95] [0] [50575] [50570] ''#B3DE69'', Show], None)"
  by (simp add: notebook_def plot_cell_def prepare_cell_fields fresh_def
      l_values_map r_values_map t_values_def b_values_replicate)

text \<open>
  C3 as amended. The preparing cell validates nothing: for every data frame it binds the
  four lists, computed by the same arithmetic whatever the signs of the fields, with one
  entry per row (nothing is dropped or clamped). The only exception of the two cells is
  the \<^verbatim>\<open>ValueError\<close> of \<^verbatim>\<open>max\<close> on a data frame without rows.
\<close>

theorem prepare_cell_checks_nothing:
  "ns_l_values (prepare_cell ns) = Some (map (\<lambda>f. start_time_s f mod 86400) (ns_df ns)) \<and>
   ns_r_values (prepare_cell ns)
     = Some (map (\<lambda>f. real_of_int (start_time_s f mod 86400) + acq_time_s f) (ns_df ns)) \<and>
   ns_t_values (prepare_cell ns) = Some (map pixels_per_second (ns_df ns)) \<and>
   ns_b_values (prepare_cell ns) = Some (replicate (length (ns_df ns)) 0) \<and>
   snd (notebook web ns) = (if ns_df ns = [] then Some ValueError else None)"
  by (simp add: prepare_cell_fields l_values_map r_values_map t_values_def
      b_values_replicate notebook_nonempty notebook_empty)

section \<open>One rectangle per frame, in order\<close>

text \<open>
  C4. Each of the four lists has the length of the data frame, and the values at index
  \<open>i\<close> are computed from row \<open>i\<close> alone. A frame without rows gives four empty lists.
\<close>

theorem lists_one_per_frame_in_order:
  "length (l_values df) = length df \<and> length (r_values df) = length df \<and>
   length (t_values df) = length df \<and> length (b_values df) = length df \<and>
   (\<forall>i < length df.
      l_values df ! i = start_time_s (df ! i) mod 86400 \<and>
      r_values df ! i = real_of_int (start_time_s (df ! i) mod 86400) + acq_time_s (df ! i) \<and>
      t_values df ! i = pixels_per_second (df ! i) \<and>
      b_values df ! i = 0) \<and>
   l_values [] = [] \<and> r_values [] = [] \<and> t_values [] = [] \<and> b_values [] = []"
proof -
  have "\<forall>i < length df.
      l_values df ! i = start_time_s (df ! i) mod 86400 \<and>
      r_values df ! i = real_of_int (start_time_s (df ! i) mod 86400) + acq_time_s (df ! i) \<and>
      t_values df ! i = pixels_per_second (df ! i) \<and>
      b_values df ! i = 0"
    by (simp add: nth_l_values nth_r_values nth_t_values b_values_replicate)
  moreover have "l_values [] = [] \<and> r_values [] = [] \<and> t_values [] = [] \<and> b_values [] = []"
    by (simp add: l_values_map r_values_map t_values_def b_values_replicate)
  moreover have "length (b_values df) = length df"
    by (simp add: b_values_replicate)
  ultimately show ?thesis
    using length_l_values [of df] length_r_values [of df] length_t_values [of df] by blast
qed

theorem lists_one_per_frame_in_order_witness:
  "(1::nat) < length df_head \<and>
   l_values df_head ! 1 = 50635 \<and> r_values df_head ! 1 = 50695 \<and>
   t_values df_head ! 1 = 0.683333 \<and> b_values df_head ! 1 = 0"
  using lists_one_per_frame_in_order [of df_head]
  by (simp add: df_head_def)

section \<open>Top coordinates\<close>

text \<open>
  C5. The top coordinates are the column \<^verbatim>\<open>pixels_per_second\<close> as it is: changing the
  pixel counts, the acquisition times or the start times of the rows does not change
  them, so the rate is neither recomputed from nor checked against the other columns.
\<close>

theorem t_values_pass_through:
  "t_values df = map pixels_per_second df \<and>
   t_values (map (\<lambda>f. f\<lparr>n_pixels := n f, acq_time_s := a f, start_time_s := s f\<rparr>) df)
     = t_values df"
  by (simp add: t_values_def comp_def)

section \<open>Area of a rectangle\<close>

text \<open>
  C6 as stated fails. The area of a rectangle need not be the pixel count of its frame:
  the second row of the file has 41 pixels in 60 seconds and the rate 0.683333, and its
  rectangle has the area 40.99998.
\<close>

theorem area_not_n_pixels_counterexample:
  "t_values df_head ! 1 * (r_values df_head ! 1 - real_of_int (l_values df_head ! 1))
     = 40.99998 \<and>
   n_pixels (df_head ! 1) = 41 \<and>
   t_values df_head ! 1 * (r_values df_head ! 1 - real_of_int (l_values df_head ! 1))
     \<noteq> real_of_int (n_pixels (df_head ! 1))"
  by (simp add: df_head_def l_values_map r_values_map t_values_def)

text \<open>
  C6 as amended. Every rectangle has the supplied rate as its top and the left coordinate
  plus the acquisition time as its right coordinate, and the pixel count of the frame is
  never read: replacing the pixel counts of the rows by any others changes none of the
  four lists, and so not the area of any rectangle. The area is the pixel count only as
  far as the supplied rate and acquisition time make it so; the notebook does not check
  that they do.
\<close>

theorem area_ignores_n_pixels:
  "l_values (map (\<lambda>f. f\<lparr>n_pixels := n f\<rparr>) df) = l_values df \<and>
   r_values (map (\<lambda>f. f\<lparr>n_pixels := n f\<rparr>) df) = r_values df \<and>
   t_values (map (\<lambda>f. f\<lparr>n_pixels := n f\<rparr>) df) = t_values df \<and>
   b_values (map (\<lambda>f. f\<lparr>n_pixels := n f\<rparr>) df) = b_values df \<and>
   t_values (map (\<lambda>f. f\<lparr>n_pixels := n f\<rparr>) df) ! j
     * (r_values (map (\<lambda>f. f\<lparr>n_pixels := n f\<rparr>) df) ! j
        - real_of_int (l_values (map (\<lambda>f. f\<lparr>n_pixels := n f\<rparr>) df) ! j))
     = t_values df ! j * (r_values df ! j - real_of_int (l_values df ! j)) \<and>
   (\<forall>i < length df.
      t_values df ! i = pixels_per_second (df ! i) \<and>
      r_values df ! i = real_of_int (l_values df ! i) + acq_time_s (df ! i))"
proof -
  have l: "l_values (map (\<lambda>f. f\<lparr>n_pixels := n f\<rparr>) df) = l_values df"
    by (simp add: l_values_map comp_def)
  have r: "r_values (map (\<lambda>f. f\<lparr>n_pixels := n f\<rparr>) df) = r_values df"
    by (simp add: r_values_map comp_def)
  have t: "t_values (map (\<lambda>f. f\<lparr>n_pixels := n f\<rparr>) df) = t_values df"
    by (simp add: t_values_def comp_def)
  have b: "b_values (map (\<lambda>f. f\<lparr>n_pixels := n f\<rparr>) df) = b_values df"
    by (simp add: b_values_replicate)
  have rows: "\<forall>i < length df.
      t_values df ! i = pixels_per_second (df ! i) \<and>
      r_values df ! i = real_of_int (l_values df ! i) + acq_time_s (df ! i)"
    by (simp add: nth_t_values nth_r_values)
  show ?thesis
    using rows by (simp add: l r t b)
qed

theorem area_ignores_n_pixels_witness:
  "(1::nat) < length df_head \<and>
   n_pixels (map (\<lambda>f. f\<lparr>n_pixels := 0\<rparr>) df_head ! 1) \<noteq> n_pixels (df_head ! 1) \<and>
   r_values (map (\<lambda>f. f\<lparr>n_pixels := 0\<rparr>) df_head) = r_values df_head \<and>
   t_values (map (\<lambda>f. f\<lparr>n_pixels := 0\<rparr>) df_head) = t_values df_head \<and>
   t_values df_head ! 1 = 0.683333 \<and>
   r_values df_head ! 1 = real_of_int (l_values df_head ! 1) + 60"
proof -
  have len: "(1::nat) < length df_head"
    by (simp add: df_head_def)
  have row: "pixels_per_second (df_head ! 1) = 0.683333 \<and> acq_time_s (df_head ! 1) = 60"
    by (simp add: df_head_def)
  have changed: "n_pixels (map (\<lambda>f. f\<lparr>n_pixels := 0\<rparr>) df_head ! 1) \<noteq> n_pixels (df_head ! 1)"
    by (simp add: df_head_def)
  from area_ignores_n_pixels [of "\<lambda>f. 0" df_head] len
  have "t_values df_head ! 1 = pixels_per_second (df_head ! 1) \<and>
        r_values df_head ! 1 = real_of_int (l_values df_head ! 1) + acq_time_s (df_head ! 1)"
    by blast
  with row have "t_values df_head ! 1 = 0.683333 \<and>
        r_values df_head ! 1 = real_of_int (l_values df_head ! 1) + 60"
    by (simp only:)
  then show ?thesis
    using area_ignores_n_pixels [of "\<lambda>f. 0" df_head] len changed
    by blast
qed

section \<open>Purity\<close>




section \<open>Bottom coordinates\<close>

text \<open>
  C8. Every bottom coordinate is 0.0.
\<close>

theorem b_values_all_zero:
  "b_values df = replicate (length df) 0 \<and> (\<forall>i < length df. b_values df ! i = 0)"
  by (simp add: b_values_replicate)

theorem b_values_all_zero_witness:
  "(4::nat) < length df_head \<and> b_values df_head ! 4 = 0"
  using b_values_all_zero [of df_head]
  by (simp add: df_head_def)

section \<open>The upper limit of the y axis\<close>

text \<open>
  C9. The preparing cell binds the four lists and nothing else for the renderer. The
  plotting cell takes the maximum of the top values itself and hands it to
  \<^verbatim>\<open>get_day_plot_figure\<close>: for a data frame with at least one row the argument is the
  greatest top value, which is the greatest value of the column \<^verbatim>\<open>pixels_per_second\<close>.
\<close>

theorem y_limit_is_max_top:
  "ns_df ns \<noteq> [] \<Longrightarrow>
   notebook web ns =
     ([Get_day_plot_figure (Max (set (t_values (ns_df ns)))),
       Quad (t_values (ns_df ns)) (b_values (ns_df ns)) (l_values (ns_df ns))
            (r_values (ns_df ns)) ''#B3DE69'']
        @ (if web then [] else [Show]), None) \<and>
   Max (set (t_values (ns_df ns))) = Max (pixels_per_second ` set (ns_df ns)) \<and>
   Max (set (t_values (ns_df ns))) \<in> set (t_values (ns_df ns)) \<and>
   (\<forall>t \<in> set (t_values (ns_df ns)). t \<le> Max (set (t_values (ns_df ns))))"
  by (simp add: notebook_nonempty) (simp add: t_values_def)

theorem y_limit_is_max_top_witness:
  "ns_df (fresh df_head) \<noteq> [] \<and>
   notebook True (fresh df_head) =
     ([Get_day_plot_figure 0.95,
       Quad [0.95, 0.683333, 0.3, 0.35, 0.35] [0, 0, 0, 0, 0]
            [50575, 50635, 50695, 50755, 50815] [50635, 50695, 50755, 50815, 50875]
            ''#B3DE69''], None) \<and>
   (0.3::real) \<in> set (t_values (ns_df (fresh df_head))) \<and>
   (0.3::real) \<le> Max (set (t_values (ns_df (fresh df_head))))"
proof -
  have ne: "ns_df (fresh df_head) \<noteq> []"
    by (simp add: fresh_def df_head_def)
  have df: "ns_df (fresh df_head) = df_head"
    by (simp add: fresh_def)
  have m: "Max (set (t_values df_head)) = 0.95"
    by (simp add: df_head_def t_values_def)
  have mem: "(0.3::real) \<in> set (t_values (ns_df (fresh df_head)))"
    by (simp add: df df_head_recorded_output)
  from y_limit_is_max_top [OF ne, of True] mem
  have "(0.3::real) \<le> Max (set (t_values (ns_df (fresh df_head))))"
    by blast
  then show ?thesis
    using y_limit_is_max_top [OF ne, of True] ne mem
    by (simp add: df m df_head_recorded_output)
qed

section \<open>A data frame without rows\<close>

text \<open>
  C10. For a data frame without rows the four lists are empty, \<^verbatim>\<open>max(t_values)\<close> raises
  \<^verbatim>\<open>ValueError\<close>, and the plotting cell ends there: neither \<^verbatim>\<open>get_day_plot_figure\<close> nor
  \<^verbatim>\<open>quad\<close> is called.
\<close>

theorem empty_frame_fails_at_max:
  "l_values [] = [] \<and> r_values [] = [] \<and> t_values [] = [] \<and> b_values [] = [] \<and>
   py_max (t_values []) = Inl ValueError \<and>
   notebook web (ns\<lparr>ns_df := []\<rparr>) = ([], Some ValueError)"
  by (simp add: l_values_map r_values_map t_values_def b_values_replicate notebook_empty)

end
